theory Spec2Isabelle
  imports Complex_Main "HOL-Library.Char_ord"
begin

section \<open>Conventions of the embedding\<close>

text \<open>
  The development embeds the two modules of the repository, \<^verbatim>\<open>arb_monitor.py\<close> and
  \<^verbatim>\<open>kalshi.py\<close>.

  \<^item> Python numbers that are prices (JSON numbers, the result of \<^verbatim>\<open>float(...)\<close>) are
    exact reals. Rounding error, overflow and the non-finite floats \<^verbatim>\<open>inf\<close> and
    \<^verbatim>\<open>nan\<close> are outside the model. Bid, ask, volume and count are Python ints, here
    \<open>int\<close>.
  \<^item> A raised exception is a value \<open>Exc cls msg\<close> on the left of a sum; \<open>msg\<close> is what
    \<^verbatim>\<open>str(e)\<close> returns.
  \<^item> A dictionary read with \<^verbatim>\<open>.get\<close> has optional fields: \<open>None\<close> stands for an
    absent key (or for Python's \<^verbatim>\<open>None\<close> where the code stores it). Fields that are
    present have the type the code expects of them.
  \<^item> A Python \<^verbatim>\<open>str\<close> is a \<open>string\<close>, one \<open>char\<close> per code point (code points below
    256).
  \<^item> What a function reads from or writes to the outside (standard output, the HTTP
    library, the clock, the configuration files) goes through an environment \<open>env\<close>
    and a log of events, passed in and returned extended.
\<close>

datatype exc_class =
  ZeroDivisionError | AttributeError | ValueError | IndexError | RequestException | OSError

datatype py_error = Exc exc_class string

fun str_exc :: "py_error \<Rightarrow> string" where
  "str_exc (Exc cls msg) = msg"

fun exc_class_of :: "py_error \<Rightarrow> exc_class" where
  "exc_class_of (Exc cls msg) = cls"

section \<open>Strings and numbers of the Python runtime\<close>

text \<open>
  \<^verbatim>\<open>s.upper()\<close>, on the letters \<^verbatim>\<open>a\<close> to \<^verbatim>\<open>z\<close>; the program applies it to HTTP
  methods and to the coin names \<^verbatim>\<open>btc\<close> and \<^verbatim>\<open>eth\<close>.
\<close>

definition upper_char :: "char \<Rightarrow> char" where
  "upper_char c =
     (let n = of_char c :: int in if 97 \<le> n \<and> n \<le> 122 then char_of (n - 32) else c)"

definition py_upper :: "string \<Rightarrow> string" where
  "py_upper s = map upper_char s"

text \<open>
  \<^verbatim>\<open>s.split(sep)\<close> for a separator of one character: the fields between the
  separators, never an empty list.
\<close>

fun py_split :: "char \<Rightarrow> string \<Rightarrow> string list" where
  "py_split sep [] = [[]]"
| "py_split sep (c # cs) =
     (if c = sep then [] # py_split sep cs
      else (case py_split sep cs of
              [] \<Rightarrow> [[c]]
            | w # ws \<Rightarrow> (c # w) # ws))"

text \<open>\<^verbatim>\<open>sub in s\<close> on strings: \<open>sub\<close> starts at some position of \<open>s\<close>.\<close>

fun starts_with :: "string \<Rightarrow> string \<Rightarrow> bool" where
  "starts_with [] s = True"
| "starts_with (a # as) [] = False"
| "starts_with (a # as) (c # cs) = (a = c \<and> starts_with as cs)"

fun py_in :: "string \<Rightarrow> string \<Rightarrow> bool" where
  "py_in sub [] = (sub = [])"
| "py_in sub (c # cs) = (starts_with sub (c # cs) \<or> py_in sub cs)"

text \<open>\<^verbatim>\<open>d.get(key, default)\<close>, on the optional field that stands for the key.\<close>

definition get_or :: "'a option \<Rightarrow> 'a \<Rightarrow> 'a" where
  "get_or v d = (case v of None \<Rightarrow> d | Some x \<Rightarrow> x)"

text \<open>\<^verbatim>\<open>xs[i]\<close> for an index that is not negative; out of range it raises.\<close>

definition py_index :: "'a list \<Rightarrow> nat \<Rightarrow> py_error + 'a" where
  "py_index xs i =
     (if i < length xs then Inr (xs ! i) else Inl (Exc IndexError ''list index out of range''))"

text \<open>\<^verbatim>\<open>s.replace(old, "")\<close> for \<open>old\<close> of one character.\<close>

definition py_replace_char :: "char \<Rightarrow> string \<Rightarrow> string" where
  "py_replace_char old s = filter (\<lambda>c. c \<noteq> old) s"

text \<open>
  \<^verbatim>\<open>float(s)\<close> on a string. Python strips white space at both ends and then reads
  an optional sign, a number (digits, where single underscores may stand between digits,
  with an optional point; or a point followed by digits) and an optional exponent; any
  other text raises \<^verbatim>\<open>ValueError\<close>. The value is the exact decimal value. The spellings
  \<^verbatim>\<open>inf\<close>, \<^verbatim>\<open>infinity\<close> and \<^verbatim>\<open>nan\<close>, which Python reads as floats that are not
  numbers, have no value here; \<open>py_float\<close> treats them as text that does not parse, and
  no theorem below is about them. The message of the \<^verbatim>\<open>ValueError\<close> is never read by the
  program.
\<close>

definition is_space :: "char \<Rightarrow> bool" where
  "is_space c =
     (let n = of_char c :: int
      in (9 \<le> n \<and> n \<le> 13) \<or> (28 \<le> n \<and> n \<le> 32) \<or> n = 133 \<or> n = 160)"

definition py_strip :: "string \<Rightarrow> string" where
  "py_strip s = rev (dropWhile is_space (rev (dropWhile is_space s)))"

definition is_digit :: "char \<Rightarrow> bool" where
  "is_digit c = (let n = of_char c :: int in 48 \<le> n \<and> n \<le> 57)"

definition digit_val :: "char \<Rightarrow> int" where
  "digit_val c = of_char c - 48"

definition int_of_digits :: "string \<Rightarrow> int" where
  "int_of_digits ds = foldl (\<lambda>a c. 10 * a + digit_val c) 0 ds"

fun more_digits :: "string \<Rightarrow> string \<times> string" where
  "more_digits [] = ([], [])"
| "more_digits [c] = (if is_digit c then ([c], []) else ([], [c]))"
| "more_digits (c # d # cs) =
     (if is_digit c then (case more_digits (d # cs) of (ds, r) \<Rightarrow> (c # ds, r))
      else if c = CHR ''_'' \<and> is_digit d then more_digits (d # cs)
      else ([], c # d # cs))"

definition digitpart :: "string \<Rightarrow> (string \<times> string) option" where
  "digitpart s =
     (case s of
        [] \<Rightarrow> None
      | c # cs \<Rightarrow>
          if is_digit c then (case more_digits cs of (ds, r) \<Rightarrow> Some (c # ds, r)) else None)"

definition parse_sign :: "string \<Rightarrow> bool \<times> string" where
  "parse_sign s =
     (case s of
        [] \<Rightarrow> (False, [])
      | c # cs \<Rightarrow>
          if c = CHR ''-'' then (True, cs)
          else if c = CHR ''+'' then (False, cs)
          else (False, c # cs))"

definition fraction_of :: "string \<Rightarrow> real" where
  "fraction_of fp = of_int (int_of_digits fp) / 10 ^ length fp"

definition parse_number :: "string \<Rightarrow> (real \<times> string) option" where
  "parse_number s =
     (case digitpart s of
        Some (ip, r) \<Rightarrow>
          (case r of
             [] \<Rightarrow> Some (of_int (int_of_digits ip), [])
           | c # r' \<Rightarrow>
               if c = CHR ''.'' then
                 (case digitpart r' of
                    Some (fp, r'') \<Rightarrow> Some (of_int (int_of_digits ip) + fraction_of fp, r'')
                  | None \<Rightarrow> Some (of_int (int_of_digits ip), r'))
               else Some (of_int (int_of_digits ip), c # r'))
      | None \<Rightarrow>
          (case s of
             [] \<Rightarrow> None
           | c # r' \<Rightarrow>
               if c = CHR ''.'' then
                 (case digitpart r' of
                    Some (fp, r'') \<Rightarrow> Some (fraction_of fp, r'')
                  | None \<Rightarrow> None)
               else None))"

definition parse_exponent :: "string \<Rightarrow> (int \<times> string) option" where
  "parse_exponent s =
     (case s of
        [] \<Rightarrow> Some (0, [])
      | c # r \<Rightarrow>
          if c = CHR ''e'' \<or> c = CHR ''E'' then
            (case parse_sign r of
               (neg, r') \<Rightarrow>
                 (case digitpart r' of
                    Some (ds, r'') \<Rightarrow>
                      Some (if neg then - int_of_digits ds else int_of_digits ds, r'')
                  | None \<Rightarrow> None))
          else Some (0, c # r))"

definition scale10 :: "real \<Rightarrow> int \<Rightarrow> real" where
  "scale10 m e = (if 0 \<le> e then m * 10 ^ nat e else m / 10 ^ nat (- e))"

definition float_error :: "string \<Rightarrow> py_error" where
  "float_error s = Exc ValueError (''could not convert string to float: '' @ s)"

definition py_float :: "string \<Rightarrow> py_error + real" where
  "py_float s =
     (case parse_sign (py_strip s) of
        (neg, t) \<Rightarrow>
          (case parse_number t of
             None \<Rightarrow> Inl (float_error s)
           | Some (m, t') \<Rightarrow>
               (case parse_exponent t' of
                  None \<Rightarrow> Inl (float_error s)
                | Some (e, t'') \<Rightarrow>
                    if t'' = [] then Inr (scale10 (if neg then - m else m) e)
                    else Inl (float_error s))))"

section \<open>Valuation: \<^verbatim>\<open>calculate_fair_value\<close>\<close>

text \<open>
  Python's \<^verbatim>\<open>round(x)\<close> with one argument returns the nearest integer, and the even
  one of the two when \<open>x\<close> lies half way between them.
\<close>

definition py_round :: "real \<Rightarrow> int" where
  "py_round x =
     (let f = \<lfloor>x\<rfloor>; d = x - of_int f
      in if d < 1 / 2 then f
         else if 1 / 2 < d then f + 1
         else if even f then f else f + 1)"

text \<open>
  \<^verbatim>\<open>calculate_fair_value(current_price, strike_price, time_to_expiry_minutes)\<close>.
  The division \<^verbatim>\<open>(current_price - strike_price) / strike_price\<close> raises
  \<^verbatim>\<open>ZeroDivisionError\<close> on a zero strike; HOL's \<open>x / 0 = 0\<close> would hide that, so the
  model tests for it where Python does. The third argument is never read.
\<close>

definition calculate_fair_value ::
  "real option \<Rightarrow> real option \<Rightarrow> int \<Rightarrow> py_error + int option" where
  "calculate_fair_value current_price strike_price time_to_expiry_minutes =
     (case strike_price of
        None \<Rightarrow> Inr None
      | Some k \<Rightarrow>
          (case current_price of
             None \<Rightarrow> Inr None
           | Some p \<Rightarrow>
               if k = 0 then Inl (Exc ZeroDivisionError ''float division by zero'')
               else
                 let pct_diff = (p - k) / k * 100;
                     fair_value =
                       (if pct_diff > 0 then min (50 + pct_diff * 15) 95
                        else max (50 + pct_diff * 15) 5)
                 in Inr (Some (py_round fair_value))))"

text \<open>
  The value of \<^verbatim>\<open>fair_value\<close> before \<^verbatim>\<open>round\<close>, as a function of spot and strike; the
  proofs below go through it.
\<close>

definition unrounded_fair_value :: "real \<Rightarrow> real \<Rightarrow> real" where
  "unrounded_fair_value p k =
     (if (p - k) / k * 100 > 0 then min (50 + (p - k) / k * 100 * 15) 95
      else max (50 + (p - k) / k * 100 * 15) 5)"

section \<open>Text formatting used by the opportunity records\<close>

text \<open>
  \<^verbatim>\<open>str(n)\<close> of an int, and the format \<^verbatim>\<open>{x:,.2f}\<close>: two decimals, rounded to
  nearest (ties to even), the integer part grouped in threes by commas.
\<close>

function digits_of :: "int \<Rightarrow> string" where
  "digits_of n =
     (if n < 10 then [char_of (48 + n)]
      else digits_of (n div 10) @ [char_of (48 + n mod 10)])"
  by pat_completeness auto
termination
  by (relation "measure nat") auto

definition py_str_int :: "int \<Rightarrow> string" where
  "py_str_int i = (if i < 0 then ''-'' @ digits_of (- i) else digits_of i)"

function group3 :: "string \<Rightarrow> string" where
  "group3 ds =
     (if length ds \<le> 3 then ds
      else group3 (take (length ds - 3) ds) @ '','' @ drop (length ds - 3) ds)"
  by pat_completeness auto
termination
  by (relation "measure length") auto

definition fmt_comma_2f :: "real \<Rightarrow> string" where
  "fmt_comma_2f x =
     (let n = py_round (\<bar>x\<bar> * 100)
      in (if x < 0 then ''-'' else [])
         @ group3 (digits_of (n div 100))
         @ ''.'' @ [char_of (48 + n mod 100 div 10), char_of (48 + n mod 10)])"

section \<open>Opportunity detection: \<^verbatim>\<open>analyze_arbitrage\<close>\<close>

text \<open>
  An entry of \<^verbatim>\<open>markets_15m\<close> under a coin key is the dictionary that
  \<^verbatim>\<open>get_kalshi_15m_markets\<close> builds. \<^verbatim>\<open>analyze_arbitrage\<close> reads \<^verbatim>\<open>yes_ask\<close> and
  \<^verbatim>\<open>yes_bid\<close> with defaults, so these two fields are optional here.
\<close>

record market =
  ticker :: "string option"
  strike :: "real option"
  yes_bid :: "int option"
  yes_ask :: "int option"
  no_bid :: int
  no_ask :: int
  close_time :: "string option"
  volume :: int
  subtitle :: string

text \<open>
  A value of \<^verbatim>\<open>markets_15m\<close>: a market entry under a coin key, or the text of an
  exception under a key \<^verbatim>\<open><coin>_error\<close>.
\<close>

datatype markets_value = Market market | ErrorText string

datatype opportunity_type = BUY_YES | SELL_YES

text \<open>
  An opportunity dictionary. A \<^verbatim>\<open>BUY_YES\<close> one has the key \<^verbatim>\<open>market_ask\<close>, a
  \<^verbatim>\<open>SELL_YES\<close> one the key \<^verbatim>\<open>market_bid\<close>; the key it lacks is \<open>None\<close>.
\<close>

record opportunity =
  opp_type :: opportunity_type
  coin :: string
  opp_ticker :: "string option"
  current_price :: real
  opp_strike :: real
  fair_value :: int
  market_ask :: "int option"
  market_bid :: "int option"
  edge :: int
  reasoning :: string

definition buy_yes ::
  "string \<Rightarrow> market \<Rightarrow> real \<Rightarrow> real \<Rightarrow> int \<Rightarrow> int \<Rightarrow> opportunity" where
  "buy_yes c m p k fv ask =
     \<lparr>opp_type = BUY_YES, coin = py_upper c, opp_ticker = ticker m,
      current_price = p, opp_strike = k, fair_value = fv,
      market_ask = Some ask, market_bid = None, edge = fv - ask,
      reasoning = ''Price $'' @ fmt_comma_2f p @ '' vs strike $'' @ fmt_comma_2f k
        @ '' suggests '' @ py_str_int fv @ ''% YES, but market asks '' @ py_str_int ask
        @ [CHR 0xA2]\<rparr>"

definition sell_yes ::
  "string \<Rightarrow> market \<Rightarrow> real \<Rightarrow> real \<Rightarrow> int \<Rightarrow> int \<Rightarrow> opportunity" where
  "sell_yes c m p k fv bid =
     \<lparr>opp_type = SELL_YES, coin = py_upper c, opp_ticker = ticker m,
      current_price = p, opp_strike = k, fair_value = fv,
      market_ask = None, market_bid = Some bid, edge = bid - fv,
      reasoning = ''Price $'' @ fmt_comma_2f p @ '' vs strike $'' @ fmt_comma_2f k
        @ '' suggests '' @ py_str_int fv @ ''% YES, but market bids '' @ py_str_int bid
        @ [CHR 0xA2]\<rparr>"

definition str_has_no_get :: string where
  "str_has_no_get =
     [CHR 0x27] @ ''str'' @ [CHR 0x27] @ '' object has no attribute ''
     @ [CHR 0x27] @ ''get'' @ [CHR 0x27]"

text \<open>
  The body of the loop \<^verbatim>\<open>for coin in ["btc", "eth"]\<close> of \<^verbatim>\<open>analyze_arbitrage\<close>:
  from the list of opportunities so far to the list after this coin, or the exception that
  leaves the function. \<open>prices coin = None\<close> is an absent key, \<open>Some None\<close> the value
  \<^verbatim>\<open>None\<close>.
\<close>

definition analyze_coin ::
  "(string \<rightharpoonup> real option) \<Rightarrow> (string \<rightharpoonup> markets_value) \<Rightarrow> string
   \<Rightarrow> opportunity list \<Rightarrow> py_error + opportunity list" where
  "analyze_coin prices markets_15m c opportunities =
     (case markets_15m c of
        None \<Rightarrow> Inr opportunities
      | Some mv \<Rightarrow>
          (case prices c of
             None \<Rightarrow> Inr opportunities
           | Some None \<Rightarrow> Inr opportunities
           | Some (Some p) \<Rightarrow>
               (case mv of
                  ErrorText s \<Rightarrow>
                    Inl (Exc AttributeError str_has_no_get)
                | Market m \<Rightarrow>
                    (case strike m of
                       None \<Rightarrow> Inr opportunities
                     | Some k \<Rightarrow>
                         (case calculate_fair_value (Some p) (Some k) 15 of
                            Inl e \<Rightarrow> Inl e
                          | Inr None \<Rightarrow> Inr opportunities
                          | Inr (Some fv) \<Rightarrow>
                              let ask = get_or (yes_ask m) 100;
                                  bid = get_or (yes_bid m) 0;
                                  opportunities1 =
                                    (if fv > ask + 5
                                     then opportunities @ [buy_yes c m p k fv ask]
                                     else opportunities);
                                  opportunities2 =
                                    (if fv < bid - 5
                                     then opportunities1 @ [sell_yes c m p k fv bid]
                                     else opportunities1)
                              in Inr opportunities2)))))"

fun analyze_coins ::
  "(string \<rightharpoonup> real option) \<Rightarrow> (string \<rightharpoonup> markets_value) \<Rightarrow> string list
   \<Rightarrow> opportunity list \<Rightarrow> py_error + opportunity list" where
  "analyze_coins prices markets_15m [] opportunities = Inr opportunities"
| "analyze_coins prices markets_15m (c # cs) opportunities =
     (case analyze_coin prices markets_15m c opportunities of
        Inl e \<Rightarrow> Inl e
      | Inr opportunities' \<Rightarrow> analyze_coins prices markets_15m cs opportunities')"

definition analyze_arbitrage ::
  "(string \<rightharpoonup> real option) \<Rightarrow> (string \<rightharpoonup> markets_value)
   \<Rightarrow> py_error + opportunity list" where
  "analyze_arbitrage prices markets_15m =
     analyze_coins prices markets_15m [''btc'', ''eth''] []"

section \<open>The API client: \<^verbatim>\<open>KalshiClient\<close>\<close>

text \<open>
  The body of an order, as \<^verbatim>\<open>place_order\<close> builds it. For \<^verbatim>\<open>yes_price\<close> and
  \<^verbatim>\<open>no_price\<close>, \<open>None\<close> is an absent key and \<open>Some None\<close> the value \<^verbatim>\<open>None\<close>.
\<close>

record order =
  o_ticker :: string
  o_side :: string
  o_action :: string
  o_count :: int
  o_type :: string
  yes_price :: "int option option"
  no_price :: "int option option"

text \<open>
  A market object of the API's reply (the \<^verbatim>\<open>m\<close> of the extraction loops); every key
  may be absent.
\<close>

record api_market =
  m_ticker :: "string option"
  m_yes_bid :: "int option"
  m_yes_ask :: "int option"
  m_no_bid :: "int option"
  m_no_ask :: "int option"
  m_close_time :: "string option"
  m_volume :: "int option"
  m_yes_sub_title :: "string option"
  m_rules_primary :: "string option"

text \<open>The parsed JSON body of a reply; \<^verbatim>\<open>{}\<close> has no key \<^verbatim>\<open>markets\<close>.\<close>

record reply =
  markets :: "api_market list option"

definition empty_reply :: reply where
  "empty_reply = \<lparr>markets = None\<rparr>"

text \<open>
  What the HTTP library hands back: \<^verbatim>\<open>resp.ok\<close>, \<^verbatim>\<open>resp.status_code\<close>,
  \<^verbatim>\<open>resp.text\<close>, the exception that \<^verbatim>\<open>resp.raise_for_status()\<close> raises when the
  response is not ok, and the outcome of \<^verbatim>\<open>resp.json()\<close>. A call of the library may
  also raise instead of answering.
\<close>

record http_response =
  resp_ok :: bool
  resp_status_code :: int
  resp_text :: string
  resp_status_error :: py_error
  resp_json :: "py_error + reply"

datatype http_outcome = Raises py_error | Responds http_response

datatype event =
    Stdout string
  | Stderr string
  | Http string string "(string \<times> string) list" "order option"
  | PriceFeedGet

text \<open>
  A constructed client: the configuration it loaded and its private key, the key as the
  function that \<^verbatim>\<open>_sign\<close> computes with it (the RSA-PSS signature of the message,
  base64-encoded; the random salt is not modelled).
\<close>

record client =
  key_id :: string
  base_url :: string
  sign :: "string \<Rightarrow> string"

text \<open>
  The environment: the HTTP library (verb, URL, headers, body), the clock in
  milliseconds as a function of the events so far, the outcome of the price feed's
  request with its JSON decoded, and the outcome of constructing the client from the
  configuration files.
\<close>

record env =
  http :: "string \<Rightarrow> string \<Rightarrow> (string \<times> string) list \<Rightarrow> order option \<Rightarrow> http_outcome"
  clock_ms :: "event list \<Rightarrow> int"
  price_feed :: "py_error + (string \<rightharpoonup> (string \<rightharpoonup> real))"
  new_client :: "py_error + client"

text \<open>
  The message that \<^verbatim>\<open>_headers\<close> signs:
  \<^verbatim>\<open>timestamp + method.upper() + path.split('?')[0]\<close>.
\<close>

definition signed_message :: "string \<Rightarrow> string \<Rightarrow> string \<Rightarrow> string" where
  "signed_message timestamp method path =
     (let path_clean = hd (py_split (CHR ''?'') path)
      in timestamp @ py_upper method @ path_clean)"

definition headers :: "env \<Rightarrow> client \<Rightarrow> event list \<Rightarrow> string \<Rightarrow> string \<Rightarrow> (string \<times> string) list" where
  "headers w self evs method path =
     (let timestamp = py_str_int (clock_ms w evs);
          msg = signed_message timestamp method path;
          signature = sign self msg
      in [(''KALSHI-ACCESS-KEY'', key_id self),
          (''KALSHI-ACCESS-TIMESTAMP'', timestamp),
          (''KALSHI-ACCESS-SIGNATURE'', signature),
          (''Content-Type'', ''application/json'')])"

text \<open>
  \<^verbatim>\<open>_request(method, path, data)\<close>. \<^verbatim>\<open>requests.delete\<close> is called without the data.
\<close>

definition request ::
  "env \<Rightarrow> client \<Rightarrow> event list \<Rightarrow> string \<Rightarrow> string \<Rightarrow> order option
   \<Rightarrow> event list \<times> (py_error + reply)" where
  "request w self evs method path data =
     (let url = base_url self @ path;
          hs = headers w self evs method path;
          verb = py_upper method
      in if verb = ''GET'' \<or> verb = ''POST'' \<or> verb = ''DELETE'' then
           (let body = (if verb = ''DELETE'' then None else data);
                evs1 = evs @ [Http verb url hs body]
            in case http w verb url hs body of
                 Raises e \<Rightarrow> (evs1, Inl e)
               | Responds resp \<Rightarrow>
                   if \<not> resp_ok resp then
                     (evs1 @ [Stderr (''Error '' @ py_str_int (resp_status_code resp)
                                      @ '': '' @ resp_text resp)],
                      Inl (resp_status_error resp))
                   else if resp_text resp \<noteq> [] then (evs1, resp_json resp)
                   else (evs1, Inr empty_reply))
         else (evs, Inl (Exc ValueError (''Unsupported method: '' @ method))))"

text \<open>
  \<^verbatim>\<open>place_order(ticker, side, action, count, type, price)\<close>; the defaults
  \<^verbatim>\<open>type="market"\<close> and \<^verbatim>\<open>price=None\<close> are passed by the caller here.
\<close>

definition place_order ::
  "env \<Rightarrow> client \<Rightarrow> event list \<Rightarrow> string \<Rightarrow> string \<Rightarrow> string \<Rightarrow> int \<Rightarrow> string \<Rightarrow> int option
   \<Rightarrow> event list \<times> (py_error + reply)" where
  "place_order w self evs tckr side action count type price =
     (let order0 = \<lparr>o_ticker = tckr, o_side = side, o_action = action, o_count = count,
                     o_type = type, yes_price = None, no_price = None\<rparr>;
          order1 =
            (if type = ''limit'' \<and> price \<noteq> None then
               order0\<lparr>yes_price := Some (if side = ''yes'' then price else None),
                      no_price := Some (if side = ''no'' then price else None)\<rparr>
             else order0)
      in request w self evs ''POST'' ''/trade-api/v2/portfolio/orders'' (Some order1))"

text \<open>The bodies of the \<^verbatim>\<open>POST\<close> requests of a log, in order.\<close>

fun posted :: "event list \<Rightarrow> order list" where
  "posted [] = []"
| "posted (Http verb url hs (Some ord) # evs) =
     (if verb = ''POST'' then ord # posted evs else posted evs)"
| "posted (ev # evs) = posted evs"

section \<open>Market extraction: \<^verbatim>\<open>get_kalshi_15m_markets\<close>, \<^verbatim>\<open>get_kalshi_daily_markets\<close>\<close>

text \<open>
  The strike of a subtitle: \<^verbatim>\<open>float(subtitle.split("$")[1].replace(",", ""))\<close> when
  \<^verbatim>\<open>"Price to beat:" in subtitle\<close>, inside a \<^verbatim>\<open>try\<close> whose bare \<^verbatim>\<open>except\<close> leaves the
  strike \<^verbatim>\<open>None\<close>.
\<close>

definition parse_strike :: "string \<Rightarrow> real option" where
  "parse_strike sub_title =
     (if py_in ''Price to beat:'' sub_title then
        (case py_index (py_split (CHR ''$'') sub_title) 1 of
           Inl e \<Rightarrow> None
         | Inr field \<Rightarrow>
             (case py_float (py_replace_char (CHR '','') field) of
                Inl e \<Rightarrow> None
              | Inr v \<Rightarrow> Some v))
      else None)"

text \<open>The dictionary built for the first market that passes the filter.\<close>

definition market_entry :: "api_market \<Rightarrow> market" where
  "market_entry m =
     (let sub_title = get_or (m_yes_sub_title m) []
      in \<lparr>ticker = m_ticker m,
          strike = parse_strike sub_title,
          yes_bid = Some (get_or (m_yes_bid m) 0),
          yes_ask = Some (get_or (m_yes_ask m) 0),
          no_bid = get_or (m_no_bid m) 0,
          no_ask = get_or (m_no_ask m) 0,
          close_time = m_close_time m,
          volume = get_or (m_volume m) 0,
          subtitle = sub_title\<rparr>)"

text \<open>
  The inner loop \<^verbatim>\<open>for m in resp.get("markets", [])\<close> with its \<^verbatim>\<open>break\<close>: the entry
  of the first market with \<^verbatim>\<open>yes_bid > 0 or yes_ask < 100\<close>, if there is one.
\<close>

fun first_quotable :: "api_market list \<Rightarrow> market option" where
  "first_quotable [] = None"
| "first_quotable (m # ms) =
     (if get_or (m_yes_bid m) 0 > 0 \<or> get_or (m_yes_ask m) 0 < 100
      then Some (market_entry m)
      else first_quotable ms)"

definition series_path :: "string \<Rightarrow> string \<Rightarrow> string" where
  "series_path series limit =
     ''/trade-api/v2/markets?series_ticker='' @ series @ ''&limit='' @ limit @ ''&status=open''"

text \<open>
  The outer loop over the series, on the pair of the log and the dictionary
  \<^verbatim>\<open>markets\<close>. An exception of the request is caught and stored as text.
\<close>

fun markets_15m_loop ::
  "env \<Rightarrow> client \<Rightarrow> (string \<times> string) list \<Rightarrow> event list \<times> (string \<rightharpoonup> markets_value)
   \<Rightarrow> event list \<times> (string \<rightharpoonup> markets_value)" where
  "markets_15m_loop w self [] st = st"
| "markets_15m_loop w self ((series, c) # rest) (evs, ms) =
     (case request w self evs ''GET'' (series_path series ''5'') None of
        (evs1, Inl e) \<Rightarrow>
          markets_15m_loop w self rest (evs1, ms(c @ ''_error'' \<mapsto> ErrorText (str_exc e)))
      | (evs1, Inr resp) \<Rightarrow>
          (case first_quotable (get_or (markets resp) []) of
             None \<Rightarrow> markets_15m_loop w self rest (evs1, ms)
           | Some entry \<Rightarrow> markets_15m_loop w self rest (evs1, ms(c \<mapsto> Market entry))))"

definition get_kalshi_15m_markets ::
  "env \<Rightarrow> client \<Rightarrow> event list \<Rightarrow> event list \<times> (string \<rightharpoonup> markets_value)" where
  "get_kalshi_15m_markets w self evs =
     markets_15m_loop w self [(''KXBTC15M'', ''btc''), (''KXETH15M'', ''eth'')] (evs, Map.empty)"

record daily_market =
  d_ticker :: "string option"
  d_yes_bid :: int
  d_yes_ask :: int
  d_volume :: int
  d_subtitle :: string

datatype daily_value = DailyMarkets "daily_market list" | DailyErrorText string

definition daily_entry :: "api_market \<Rightarrow> daily_market" where
  "daily_entry m =
     \<lparr>d_ticker = m_ticker m,
      d_yes_bid = get_or (m_yes_bid m) 0,
      d_yes_ask = get_or (m_yes_ask m) 0,
      d_volume = get_or (m_volume m) 0,
      d_subtitle = get_or (m_yes_sub_title m) []\<rparr>"

fun markets_daily_loop ::
  "env \<Rightarrow> client \<Rightarrow> (string \<times> string) list \<Rightarrow> event list \<times> (string \<rightharpoonup> daily_value)
   \<Rightarrow> event list \<times> (string \<rightharpoonup> daily_value)" where
  "markets_daily_loop w self [] st = st"
| "markets_daily_loop w self ((series, c) # rest) (evs, ms) =
     (case request w self evs ''GET'' (series_path series ''20'') None of
        (evs1, Inl e) \<Rightarrow>
          markets_daily_loop w self rest
            (evs1, ms(c @ ''_error'' \<mapsto> DailyErrorText (str_exc e)))
      | (evs1, Inr resp) \<Rightarrow>
          (let active =
                 filter (\<lambda>m. get_or (m_volume m) 0 > 0 \<or> get_or (m_yes_bid m) 0 > 0)
                   (get_or (markets resp) [])
           in if active \<noteq> []
              then markets_daily_loop w self rest
                     (evs1, ms(c \<mapsto> DailyMarkets (map daily_entry (take 5 active))))
              else markets_daily_loop w self rest (evs1, ms)))"

definition get_kalshi_daily_markets ::
  "env \<Rightarrow> client \<Rightarrow> event list \<Rightarrow> event list \<times> (string \<rightharpoonup> daily_value)" where
  "get_kalshi_daily_markets w self evs =
     markets_daily_loop w self [(''KXDOGE'', ''doge''), (''KXBTC'', ''btc_daily'')]
       (evs, Map.empty)"

section \<open>The price feed and the monitoring cycle: \<^verbatim>\<open>get_crypto_prices\<close>, \<^verbatim>\<open>main\<close>\<close>

text \<open>
  \<^verbatim>\<open>get_crypto_prices\<close> returns one of two dictionaries: \<^verbatim>\<open>{"error": str(e)}\<close> when
  anything in its \<^verbatim>\<open>try\<close> block raised, or the table of six entries, each a number or
  \<^verbatim>\<open>None\<close>. The test \<^verbatim>\<open>"error" in prices\<close> of \<^verbatim>\<open>main\<close> tells them apart.
\<close>

datatype prices_dict = ErrorDict string | PriceTable "string \<rightharpoonup> real option"

fun has_error_key :: "prices_dict \<Rightarrow> bool" where
  "has_error_key (ErrorDict msg) = True"
| "has_error_key (PriceTable t) = False"

definition get2 :: "(string \<rightharpoonup> (string \<rightharpoonup> real)) \<Rightarrow> string \<Rightarrow> string \<Rightarrow> real option" where
  "get2 data asset field = (case data asset of None \<Rightarrow> None | Some d \<Rightarrow> d field)"

definition get_crypto_prices :: "env \<Rightarrow> event list \<Rightarrow> event list \<times> prices_dict" where
  "get_crypto_prices w evs =
     (evs @ [PriceFeedGet],
      case price_feed w of
        Inl e \<Rightarrow> ErrorDict (str_exc e)
      | Inr data \<Rightarrow>
          PriceTable
            [''btc'' \<mapsto> get2 data ''bitcoin'' ''usd'',
             ''eth'' \<mapsto> get2 data ''ethereum'' ''usd'',
             ''doge'' \<mapsto> get2 data ''dogecoin'' ''usd'',
             ''btc_24h'' \<mapsto> get2 data ''bitcoin'' ''usd_24h_change'',
             ''eth_24h'' \<mapsto> get2 data ''ethereum'' ''usd_24h_change'',
             ''doge_24h'' \<mapsto> get2 data ''dogecoin'' ''usd_24h_change''])"

text \<open>The dictionary that \<^verbatim>\<open>main\<close> returns after a full cycle.\<close>

record cycle_result =
  r_report :: string
  r_prices :: "string \<rightharpoonup> real option"
  r_markets_15m :: "string \<rightharpoonup> markets_value"
  r_opportunities :: "opportunity list"
  r_has_opportunities :: bool

text \<open>
  \<^verbatim>\<open>main()\<close>, from an empty log. \<^verbatim>\<open>format_report\<close> renders text from its four
  arguments and the wall clock; \<^verbatim>\<open>main\<close> only stores what it returns, so it is the
  parameter \<open>format_report\<close> here. The result is \<open>Inr None\<close> for \<^verbatim>\<open>return None\<close>.
\<close>

definition main ::
  "env
   \<Rightarrow> ((string \<rightharpoonup> real option) \<Rightarrow> (string \<rightharpoonup> markets_value) \<Rightarrow> (string \<rightharpoonup> daily_value)
       \<Rightarrow> opportunity list \<Rightarrow> py_error + string)
   \<Rightarrow> event list \<times> (py_error + cycle_result option)" where
  "main w format_report =
     (case get_crypto_prices w [] of
        (evs1, ErrorDict msg) \<Rightarrow>
          (evs1 @ [Stdout (''Error fetching prices: '' @ msg)], Inr None)
      | (evs1, PriceTable prices) \<Rightarrow>
          (case new_client w of
             Inl e \<Rightarrow> (evs1, Inl e)
           | Inr self \<Rightarrow>
               (case get_kalshi_15m_markets w self evs1 of
                  (evs2, markets_15m) \<Rightarrow>
                    (case get_kalshi_daily_markets w self evs2 of
                       (evs3, markets_daily) \<Rightarrow>
                         (case analyze_arbitrage prices markets_15m of
                            Inl e \<Rightarrow> (evs3, Inl e)
                          | Inr opportunities \<Rightarrow>
                              (case format_report prices markets_15m markets_daily
                                      opportunities of
                                 Inl e \<Rightarrow> (evs3, Inl e)
                               | Inr report \<Rightarrow>
                                   (evs3,
                                    Inr (Some \<lparr>r_report = report, r_prices = prices,
                                               r_markets_15m = markets_15m,
                                               r_opportunities = opportunities,
                                               r_has_opportunities =
                                                 (length opportunities > 0)\<rparr>))))))))"

section \<open>Inputs of the worked examples\<close>

text \<open>A market entry with the given strike, bid and ask; the other fields are fixed.\<close>

definition quoted_market :: "real \<Rightarrow> int option \<Rightarrow> int option \<Rightarrow> market" where
  "quoted_market k bid ask =
     \<lparr>ticker = Some ''KX15M-T'', strike = Some k, yes_bid = bid, yes_ask = ask,
      no_bid = 0, no_ask = 0, close_time = None, volume = 0, subtitle = []\<rparr>"

text \<open>
  A client, a reply that is ok, and an environment whose server accepts every request
  and whose price feed times out.
\<close>

definition demo_client :: client where
  "demo_client =
     \<lparr>key_id = ''key-1'', base_url = ''https://demo-api.kalshi.co'', sign = (\<lambda>msg. ''c2ln'')\<rparr>"

definition ok_response :: "reply \<Rightarrow> http_response" where
  "ok_response r =
     \<lparr>resp_ok = True, resp_status_code = 200, resp_text = ''{..}'',
      resp_status_error = Exc RequestException [], resp_json = Inr r\<rparr>"

definition accepting_env :: env where
  "accepting_env =
     \<lparr>http = (\<lambda>verb url hs body. Responds (ok_response empty_reply)),
      clock_ms = (\<lambda>evs. 1700000000000),
      price_feed = Inl (Exc RequestException ''timed out''),
      new_client = Inr demo_client\<rparr>"

text \<open>An environment in which the requests for the BTC series fail.\<close>

definition eth_market :: api_market where
  "eth_market =
     \<lparr>m_ticker = Some ''KXETH15M-T'', m_yes_bid = Some 60, m_yes_ask = Some 70,
      m_no_bid = Some 30, m_no_ask = Some 40, m_close_time = None, m_volume = Some 12,
      m_yes_sub_title = Some ''Price to beat: $100.00'', m_rules_primary = None\<rparr>"

definition btc_down_env :: env where
  "btc_down_env =
     \<lparr>http = (\<lambda>verb url hs body.
               if py_in ''series_ticker=KXBTC15M'' url
               then Raises (Exc RequestException ''connection refused'')
               else Responds (ok_response \<lparr>markets = Some [eth_market]\<rparr>)),
      clock_ms = (\<lambda>evs. 1700000000000),
      price_feed = Inr [''bitcoin'' \<mapsto> [''usd'' \<mapsto> 67000], ''ethereum'' \<mapsto> [''usd'' \<mapsto> 102]],
      new_client = Inr demo_client\<rparr>"

text \<open>A report formatter that only counts the opportunities.\<close>

definition plain_report ::
  "(string \<rightharpoonup> real option) \<Rightarrow> (string \<rightharpoonup> markets_value) \<Rightarrow> (string \<rightharpoonup> daily_value)
   \<Rightarrow> opportunity list \<Rightarrow> py_error + string" where
  "plain_report prices markets_15m markets_daily opportunities =
     Inr (''opportunities: '' @ py_str_int (int (length opportunities)))"

section \<open>Properties of the valuation\<close>

lemma py_round_cases: "py_round x = \<lfloor>x\<rfloor> \<or> py_round x = \<lfloor>x\<rfloor> + 1"
  by (simp add: py_round_def Let_def)


lemma py_round_mono: "x \<le> y \<Longrightarrow> py_round x \<le> py_round y"
proof -
  assume xy: "x \<le> y"
  have fl: "\<lfloor>x\<rfloor> \<le> \<lfloor>y\<rfloor>" using xy by (rule floor_mono)
  show ?thesis
  proof (cases "\<lfloor>x\<rfloor> = \<lfloor>y\<rfloor>")
    case True
    then show ?thesis using xy unfolding py_round_def Let_def by auto
  next
    case False
    then have "\<lfloor>x\<rfloor> + 1 \<le> \<lfloor>y\<rfloor>" using fl by simp
    moreover have "py_round x \<le> \<lfloor>x\<rfloor> + 1" using py_round_cases[of x] by auto
    moreover have "\<lfloor>y\<rfloor> \<le> py_round y" using py_round_cases[of y] by auto
    ultimately show ?thesis by linarith
  qed
qed

lemma py_round_of_int: "py_round (of_int n) = n"
  by (simp add: py_round_def Let_def)

lemma py_round_ge: "of_int n \<le> x \<Longrightarrow> n \<le> py_round x"
  using py_round_mono[of "of_int n" x] by (simp add: py_round_of_int)

lemma py_round_le: "x \<le> of_int n \<Longrightarrow> py_round x \<le> n"
  using py_round_mono[of x "of_int n"] by (simp add: py_round_of_int)

lemma fair_value_eq:
  "k \<noteq> 0 \<Longrightarrow>
   calculate_fair_value (Some p) (Some k) t = Inr (Some (py_round (unrounded_fair_value p k)))"
  by (simp add: calculate_fair_value_def unrounded_fair_value_def Let_def)

lemma unrounded_fair_value_pct:
  "unrounded_fair_value p k =
     (let d = (p - k) / k * 100
      in if d > 0 then min (50 + d * 15) 95 else max (50 + d * 15) 5)"
  by (simp only: unrounded_fair_value_def Let_def)

lemma saturating_bounds:
  fixes d :: real
  shows "5 \<le> (if d > 0 then min (50 + d * 15) 95 else max (50 + d * 15) 5)"
    and "(if d > 0 then min (50 + d * 15) 95 else max (50 + d * 15) 5) \<le> 95"
  by (auto simp: min_def max_def)

lemma saturating_mono:
  fixes d e :: real
  assumes "d \<le> e"
  shows "(if d > 0 then min (50 + d * 15) 95 else max (50 + d * 15) 5)
       \<le> (if e > 0 then min (50 + e * 15) 95 else max (50 + e * 15) 5)"
  using assms by (auto simp: min_def max_def)

lemma saturating_high:
  fixes d :: real
  assumes "3 \<le> d"
  shows "(if d > 0 then min (50 + d * 15) 95 else max (50 + d * 15) 5) = 95"
  using assms by (auto simp: min_def)

lemma saturating_low:
  fixes d :: real
  assumes "d \<le> - 3"
  shows "(if d > 0 then min (50 + d * 15) 95 else max (50 + d * 15) 5) = 5"
  using assms by (auto simp: max_def)

lemma unrounded_bounds: "5 \<le> unrounded_fair_value p k \<and> unrounded_fair_value p k \<le> 95"
  unfolding unrounded_fair_value_pct Let_def
  using saturating_bounds[of "(p - k) / k * 100"] by blast

lemma pct_diff_mono:
  fixes p q k :: real
  assumes "0 < k" and "p \<le> q"
  shows "(p - k) / k * 100 \<le> (q - k) / k * 100"
proof -
  have "(p - k) / k \<le> (q - k) / k"
    using assms by (simp add: divide_right_mono)
  then show ?thesis by (rule mult_right_mono) simp
qed

lemma unrounded_mono:
  assumes "0 < k" and "p \<le> q"
  shows "unrounded_fair_value p k \<le> unrounded_fair_value q k"
  unfolding unrounded_fair_value_pct Let_def
  by (rule saturating_mono) (rule pct_diff_mono[OF assms])

lemma rounded_bounds:
  "5 \<le> py_round (unrounded_fair_value p k) \<and> py_round (unrounded_fair_value p k) \<le> 95"
proof
  show "5 \<le> py_round (unrounded_fair_value p k)"
    using unrounded_bounds[of p k] by (intro py_round_ge) simp
  show "py_round (unrounded_fair_value p k) \<le> 95"
    using unrounded_bounds[of p k] by (intro py_round_le) simp
qed

lemma fair_value_range:
  assumes "calculate_fair_value sp st t = Inr (Some v)"
  shows "5 \<le> v \<and> v \<le> 95"
proof -
  from assms obtain p k where sp: "sp = Some p" and st: "st = Some k" and k: "k \<noteq> 0"
    by (auto simp: calculate_fair_value_def split: option.splits if_splits)
  from assms have "v = py_round (unrounded_fair_value p k)"
    by (simp add: sp st fair_value_eq[OF k])
  then show ?thesis using rounded_bounds[of p k] by simp
qed


lemma fair_value_saturates_high:
  assumes "k \<noteq> 0" and "3 \<le> (p - k) / k * 100"
  shows "calculate_fair_value (Some p) (Some k) t = Inr (Some 95)"
proof -
  have "unrounded_fair_value p k = 95"
    unfolding unrounded_fair_value_pct Let_def by (rule saturating_high[OF assms(2)])
  then have "unrounded_fair_value p k = of_int 95" by simp
  then have "py_round (unrounded_fair_value p k) = 95" by (simp only: py_round_of_int)
  then show ?thesis by (simp add: fair_value_eq[OF assms(1)])
qed

lemma fair_value_saturates_low:
  assumes "k \<noteq> 0" and "(p - k) / k * 100 \<le> - 3"
  shows "calculate_fair_value (Some p) (Some k) t = Inr (Some 5)"
proof -
  have "unrounded_fair_value p k = 5"
    unfolding unrounded_fair_value_pct Let_def by (rule saturating_low[OF assms(2)])
  then have "unrounded_fair_value p k = of_int 5" by simp
  then have "py_round (unrounded_fair_value p k) = 5" by (simp only: py_round_of_int)
  then show ?thesis by (simp add: fair_value_eq[OF assms(1)])
qed




text \<open>
  Claim C8. For a fixed positive strike, \<^verbatim>\<open>calculate_fair_value\<close> is monotonically
  non-decreasing in the spot price; it returns 95 for every spot at least 3 percent above
  the strike and 5 for every spot at least 3 percent below it; and no call, with any
  arguments, returns a value outside 5 to 95.
\<close>

theorem calculate_fair_value_monotone:
  assumes "0 < k"
  shows
    "(s1 \<le> s2 \<longrightarrow>
        (\<exists>v1 v2. calculate_fair_value (Some s1) (Some k) t = Inr (Some v1)
           \<and> calculate_fair_value (Some s2) (Some k) t = Inr (Some v2) \<and> v1 \<le> v2))
     \<and> (3 \<le> (s - k) / k * 100 \<longrightarrow> calculate_fair_value (Some s) (Some k) t = Inr (Some 95))
     \<and> ((s - k) / k * 100 \<le> - 3 \<longrightarrow> calculate_fair_value (Some s) (Some k) t = Inr (Some 5))
     \<and> (\<forall>sp st u v. calculate_fair_value sp st u = Inr (Some v) \<longrightarrow> 5 \<le> v \<and> v \<le> 95)"
proof -
  from assms have k: "k \<noteq> 0" by simp
  have mono:
    "s1 \<le> s2 \<longrightarrow>
       (\<exists>v1 v2. calculate_fair_value (Some s1) (Some k) t = Inr (Some v1)
          \<and> calculate_fair_value (Some s2) (Some k) t = Inr (Some v2) \<and> v1 \<le> v2)"
  proof
    assume le: "s1 \<le> s2"
    have "py_round (unrounded_fair_value s1 k) \<le> py_round (unrounded_fair_value s2 k)"
      by (rule py_round_mono) (rule unrounded_mono[OF assms le])
    then show
      "\<exists>v1 v2. calculate_fair_value (Some s1) (Some k) t = Inr (Some v1)
         \<and> calculate_fair_value (Some s2) (Some k) t = Inr (Some v2) \<and> v1 \<le> v2"
      by (simp add: fair_value_eq[OF k])
  qed
  have high: "3 \<le> (s - k) / k * 100 \<longrightarrow> calculate_fair_value (Some s) (Some k) t = Inr (Some 95)"
    using fair_value_saturates_high[OF k] by blast
  have low: "(s - k) / k * 100 \<le> - 3 \<longrightarrow> calculate_fair_value (Some s) (Some k) t = Inr (Some 5)"
    using fair_value_saturates_low[OF k] by blast
  have range: "\<forall>sp st u v. calculate_fair_value sp st u = Inr (Some v) \<longrightarrow> 5 \<le> v \<and> v \<le> 95"
    using fair_value_range by blast
  show ?thesis using mono high low range by blast
qed

theorem calculate_fair_value_monotone_witness:
  "(\<exists>v1 v2. calculate_fair_value (Some 99) (Some 100) 15 = Inr (Some v1)
      \<and> calculate_fair_value (Some 101) (Some 100) 15 = Inr (Some v2) \<and> v1 \<le> v2)
   \<and> calculate_fair_value (Some 103) (Some 100) 15 = Inr (Some 95)"
proof -
  have pos: "(0::real) < 100" by simp
  have le: "(99::real) \<le> 101" by simp
  have dev: "(3::real) \<le> (103 - 100) / 100 * 100" by simp
  show ?thesis
    using calculate_fair_value_monotone[OF pos, of 99 101 15 103] le
      calculate_fair_value_monotone[OF pos, of 103 103 15 103] dev
    by blast
qed

text \<open>
  Claim C9. With a spot price that is not \<^verbatim>\<open>None\<close>, \<^verbatim>\<open>calculate_fair_value\<close> raises
  \<^verbatim>\<open>ZeroDivisionError\<close> exactly when the strike is 0, and returns an integer exactly when
  the strike is not 0: on a zero strike it returns neither \<^verbatim>\<open>None\<close> nor a value.
\<close>

theorem calculate_fair_value_zero_strike:
  "calculate_fair_value (Some s) (Some 0) t = Inl (Exc ZeroDivisionError ''float division by zero'')
   \<and> ((\<exists>e. calculate_fair_value (Some s) (Some k) t = Inl e) = (k = 0))
   \<and> ((\<exists>v. calculate_fair_value (Some s) (Some k) t = Inr (Some v)) = (k \<noteq> 0))
   \<and> calculate_fair_value (Some s) (Some k) t \<noteq> Inr None"
  by (auto simp: calculate_fair_value_def Let_def)

theorem calculate_fair_value_zero_strike_witness:
  "calculate_fair_value (Some 67000) (Some 0) 15
     = Inl (Exc ZeroDivisionError ''float division by zero'')
   \<and> (\<exists>v. calculate_fair_value (Some 67000) (Some 1) 15 = Inr (Some v))"
  using calculate_fair_value_zero_strike[of 67000 15 1] by simp

section \<open>Properties of the opportunity detection\<close>

lemma py_upper_btc: "py_upper ''btc'' = ''BTC''" by code_simp
lemma py_upper_eth: "py_upper ''eth'' = ''ETH''" by code_simp

lemma analyze_coin_acc:
  "analyze_coin prices ms c acc =
     (case analyze_coin prices ms c [] of Inl e \<Rightarrow> Inl e | Inr r \<Rightarrow> Inr (acc @ r))"
  by (simp add: analyze_coin_def Let_def split: option.splits markets_value.splits sum.splits)


lemma analyze_coin_coin:
  assumes "analyze_coin prices ms c [] = Inr r"
  shows "\<forall>x\<in>set r. coin x = py_upper c"
  using assms
  by (auto simp: analyze_coin_def Let_def buy_yes_def sell_yes_def
      split: option.splits markets_value.splits sum.splits if_splits)

lemma analyze_coin_at_most_one:
  assumes "analyze_coin prices ms c [] = Inr r" and "ms c = Some (Market m)"
    and "get_or (yes_bid m) 0 \<le> get_or (yes_ask m) 100 + 10"
  shows "length r \<le> 1"
  using assms
  by (auto simp: analyze_coin_def Let_def
      split: option.splits markets_value.splits sum.splits if_splits)

lemma analyze_arbitrage_Inr:
  assumes "analyze_arbitrage prices ms = Inr opps"
  shows "\<exists>r1 r2. analyze_coin prices ms ''btc'' [] = Inr r1
           \<and> analyze_coin prices ms ''eth'' [] = Inr r2 \<and> opps = r1 @ r2"
proof -
  obtain r1 where r1: "analyze_coin prices ms ''btc'' [] = Inr r1"
    using assms by (auto simp: analyze_arbitrage_def split: sum.splits)
  then obtain r2 where r2: "analyze_coin prices ms ''eth'' [] = Inr r2"
    using assms analyze_coin_acc[of prices ms "''eth''" r1]
    by (auto simp: analyze_arbitrage_def split: sum.splits)
  have "opps = r1 @ r2"
    using assms r1 r2 analyze_coin_acc[of prices ms "''eth''" r1]
    by (auto simp: analyze_arbitrage_def split: sum.splits)
  then show ?thesis using r1 r2 by blast
qed

lemma analyze_arbitrage_iff:
  "analyze_arbitrage prices ms =
     (case analyze_coin prices ms ''btc'' [] of
        Inl e \<Rightarrow> Inl e
      | Inr r1 \<Rightarrow>
          (case analyze_coin prices ms ''eth'' [] of
             Inl e \<Rightarrow> Inl e
           | Inr r2 \<Rightarrow> Inr (r1 @ r2)))"
proof (cases "analyze_coin prices ms ''btc'' []")
  case (Inl e)
  then show ?thesis by (simp add: analyze_arbitrage_def)
next
  case (Inr r1)
  then show ?thesis
    using analyze_coin_acc[of prices ms "''eth''" r1]
    by (simp add: analyze_arbitrage_def split: sum.splits)
qed

lemma filter_own:
  assumes "\<forall>x\<in>set r. coin x = u"
  shows "filter (\<lambda>x. coin x = u) r = r"
  using assms by (induction r) auto

lemma filter_other:
  assumes "\<forall>x\<in>set r. coin x = u'" and "u' \<noteq> u"
  shows "filter (\<lambda>x. coin x = u) r = []"
  using assms by (induction r) auto

lemma analyze_arbitrage_filter:
  assumes "analyze_arbitrage prices ms = Inr opps" and "c = ''btc'' \<or> c = ''eth''"
  shows "\<exists>r. analyze_coin prices ms c [] = Inr r \<and> filter (\<lambda>x. coin x = py_upper c) opps = r"
proof -
  from analyze_arbitrage_Inr[OF assms(1)] obtain r1 r2 where
    r1: "analyze_coin prices ms ''btc'' [] = Inr r1" and
    r2: "analyze_coin prices ms ''eth'' [] = Inr r2" and opps: "opps = r1 @ r2"
    by blast
  have c1: "\<forall>x\<in>set r1. coin x = ''BTC''"
    using analyze_coin_coin[OF r1] by (simp add: py_upper_btc)
  have c2: "\<forall>x\<in>set r2. coin x = ''ETH''"
    using analyze_coin_coin[OF r2] by (simp add: py_upper_eth)
  from assms(2) show ?thesis
  proof
    assume c: "c = ''btc''"
    have "filter (\<lambda>x. coin x = ''BTC'') (r1 @ r2) = r1"
      using filter_own[OF c1] filter_other[OF c2, of "''BTC''"] by simp
    then show ?thesis using r1 by (simp add: c opps py_upper_btc)
  next
    assume c: "c = ''eth''"
    have "filter (\<lambda>x. coin x = ''ETH'') (r1 @ r2) = r2"
      using filter_own[OF c2] filter_other[OF c1, of "''ETH''"] by simp
    then show ?thesis using r2 by (simp add: c opps py_upper_eth)
  qed
qed




text \<open>
  Claim C10. For a tracked asset whose selected market has
  \<open>yes_bid \<le> yes_ask + 10\<close>, \<^verbatim>\<open>analyze_arbitrage\<close> returns at most one opportunity for
  that asset: no fair value is above \<open>yes_ask + 5\<close> and below \<open>yes_bid - 5\<close> at once.
\<close>

theorem at_most_one_opportunity:
  assumes "c = ''btc'' \<or> c = ''eth''" and "ms c = Some (Market m)"
    and "get_or (yes_bid m) 0 \<le> get_or (yes_ask m) 100 + 10"
  shows
    "(\<forall>opps. analyze_arbitrage prices ms = Inr opps \<longrightarrow>
        length (filter (\<lambda>x. coin x = py_upper c) opps) \<le> 1)
     \<and> (\<forall>fv. \<not> (fv > get_or (yes_ask m) 100 + 5 \<and> fv < get_or (yes_bid m) 0 - 5))"
proof
  show "\<forall>opps. analyze_arbitrage prices ms = Inr opps \<longrightarrow>
          length (filter (\<lambda>x. coin x = py_upper c) opps) \<le> 1"
  proof (intro allI impI)
    fix opps
    assume a: "analyze_arbitrage prices ms = Inr opps"
    from analyze_arbitrage_filter[OF a assms(1)] obtain r where
      r: "analyze_coin prices ms c [] = Inr r" and f: "filter (\<lambda>x. coin x = py_upper c) opps = r"
      by blast
    show "length (filter (\<lambda>x. coin x = py_upper c) opps) \<le> 1"
      using analyze_coin_at_most_one[OF r assms(2,3)] f by simp
  qed
  show "\<forall>fv. \<not> (fv > get_or (yes_ask m) 100 + 5 \<and> fv < get_or (yes_bid m) 0 - 5)"
    using assms(3) by auto
qed

theorem at_most_one_opportunity_witness:
  "\<exists>opps. analyze_arbitrage [''btc'' \<mapsto> Some 102]
             [''btc'' \<mapsto> Market (quoted_market 100 (Some 60) (Some 70))] = Inr opps
     \<and> length (filter (\<lambda>x. coin x = ''BTC'') opps) \<le> 1"
proof -
  let ?m = "quoted_market 100 (Some 60) (Some 70)"
  have a: "analyze_arbitrage [''btc'' \<mapsto> Some 102] [''btc'' \<mapsto> Market ?m]
             = Inr [buy_yes ''btc'' ?m 102 100 80 70]"
    by code_simp
  have h: "get_or (yes_bid ?m) 0 \<le> get_or (yes_ask ?m) 100 + 10"
    by (simp add: quoted_market_def get_or_def)
  have "length (filter (\<lambda>x. coin x = py_upper ''btc'') [buy_yes ''btc'' ?m 102 100 80 70]) \<le> 1"
    using at_most_one_opportunity[of "''btc''" "[''btc'' \<mapsto> Market ?m]" ?m "[''btc'' \<mapsto> Some 102]"] h a
    by simp
  then show ?thesis using a by (simp add: py_upper_btc)
qed

section \<open>Properties of the request signing\<close>

lemma py_split_nonempty: "py_split c s \<noteq> []"
  by (induction s) (auto split: list.splits)

lemma hd_py_split: "hd (py_split c s) = takeWhile (\<lambda>x. x \<noteq> c) s"
  by (induction s) (auto split: list.splits simp: py_split_nonempty)



lemma takeWhile_no_sep: "c \<notin> set p \<Longrightarrow> takeWhile (\<lambda>x. x \<noteq> c) p = p"
  by (induction p) auto

lemma takeWhile_cut: "c \<notin> set p \<Longrightarrow> takeWhile (\<lambda>x. x \<noteq> c) (p @ c # q) = p"
  by (induction p) auto



text \<open>
  Claim C5. For every timestamp \<open>t\<close>, method \<open>m\<close> and path \<open>p\<close>, the message that the
  client signs is \<open>t\<close>, then \<open>m\<close> in upper case, then \<open>p\<close> cut before its first
  \<^verbatim>\<open>?\<close>; the message for \<^verbatim>\<open>/x?a=1\<close> is the message for \<^verbatim>\<open>/x\<close>, and so for every path
  and query. The signature header of \<^verbatim>\<open>_headers\<close> is the signature of that message, built
  with the timestamp of the timestamp header.
\<close>

theorem signed_message_excludes_query:
  "signed_message t m p = t @ py_upper m @ takeWhile (\<lambda>x. x \<noteq> CHR ''?'') p
   \<and> signed_message t ''GET'' ''/x?a=1'' = signed_message t ''GET'' ''/x''
   \<and> (CHR ''?'' \<notin> set p \<longrightarrow> signed_message t m (p @ ''?'' @ q) = signed_message t m p)
   \<and> map_of (headers w self evs m p) ''KALSHI-ACCESS-TIMESTAMP''
       = Some (py_str_int (clock_ms w evs))
   \<and> map_of (headers w self evs m p) ''KALSHI-ACCESS-SIGNATURE''
       = Some (sign self (py_str_int (clock_ms w evs) @ py_upper m
                          @ takeWhile (\<lambda>x. x \<noteq> CHR ''?'') p))"
proof -
  have eq: "\<And>t m p. signed_message t m p = t @ py_upper m @ takeWhile (\<lambda>x. x \<noteq> CHR ''?'') p"
    by (simp add: signed_message_def Let_def hd_py_split)
  have ex: "signed_message t ''GET'' ''/x?a=1'' = signed_message t ''GET'' ''/x''"
    by (simp add: eq)
  have cut: "CHR ''?'' \<notin> set p \<longrightarrow> signed_message t m (p @ ''?'' @ q) = signed_message t m p"
  proof
    assume "CHR ''?'' \<notin> set p"
    then have a: "takeWhile (\<lambda>x. x \<noteq> CHR ''?'') p = p"
      by (rule takeWhile_no_sep)
    have b: "takeWhile (\<lambda>x. x \<noteq> CHR ''?'') (p @ ''?'' @ q) = p"
      using \<open>CHR ''?'' \<notin> set p\<close> takeWhile_cut[of "CHR ''?''" p q] by simp
    show "signed_message t m (p @ ''?'' @ q) = signed_message t m p"
      by (simp only: eq a b)
  qed
  have ts: "map_of (headers w self evs m p) ''KALSHI-ACCESS-TIMESTAMP''
              = Some (py_str_int (clock_ms w evs))"
    by (simp add: headers_def Let_def)
  have sg: "map_of (headers w self evs m p) ''KALSHI-ACCESS-SIGNATURE''
       = Some (sign self (py_str_int (clock_ms w evs) @ py_upper m
                          @ takeWhile (\<lambda>x. x \<noteq> CHR ''?'') p))"
    by (simp add: headers_def Let_def eq)
  show ?thesis using eq ex cut ts sg by blast
qed

theorem signed_message_excludes_query_witness:
  "signed_message ''1700000000000'' ''get'' ''/trade-api/v2/markets?series_ticker=KXBTC15M''
     = ''1700000000000GET/trade-api/v2/markets''
   \<and> signed_message ''1700000000000'' ''get'' ''/trade-api/v2/markets''
     = ''1700000000000GET/trade-api/v2/markets''"
proof -
  have u: "py_upper ''get'' = ''GET''" by code_simp
  have h: "CHR ''?'' \<notin> set ''/trade-api/v2/markets''" by simp
  show ?thesis
    using signed_message_excludes_query[of "''1700000000000''" "''get''"
        "''/trade-api/v2/markets''" "''series_ticker=KXBTC15M''"] h u
    by simp
qed

section \<open>Properties of the strike extraction\<close>
















section \<open>Properties of the client and of the monitoring cycle\<close>

lemma posted_append: "posted (evs @ evs') = posted evs @ posted evs'"
  by (induction evs rule: posted.induct) auto

lemma py_upper_POST: "py_upper ''POST'' = ''POST''" by code_simp
lemma py_upper_GET: "py_upper ''GET'' = ''GET''" by code_simp

lemma request_POST_log:
  "\<exists>rest. fst (request w self evs ''POST'' path (Some ord))
      = evs @ Http ''POST'' (base_url self @ path) (headers w self evs ''POST'' path) (Some ord)
          # rest
     \<and> posted rest = []"
  by (auto simp: request_def Let_def py_upper_POST split: http_outcome.splits)

lemma request_GET_log:
  "\<exists>rest. fst (request w self evs ''GET'' path None)
      = evs @ Http ''GET'' (base_url self @ path) (headers w self evs ''GET'' path) None # rest"
  by (auto simp: request_def Let_def py_upper_GET split: http_outcome.splits)

text \<open>
  Claim C3, as amended. \<^verbatim>\<open>place_order\<close> validates nothing before it dispatches the
  request: every call, whatever its side, action, count, type and price, sends exactly one
  \<^verbatim>\<open>POST\<close> to \<^verbatim>\<open>/trade-api/v2/portfolio/orders\<close> whose body carries the five arguments
  unchanged. For a limit order with a price that is not \<^verbatim>\<open>None\<close> (1 and 99, and 0 and
  100 as well) the price is attached to \<^verbatim>\<open>yes_price\<close> when the side is \<^verbatim>\<open>yes\<close> and to
  \<^verbatim>\<open>no_price\<close> when it is \<^verbatim>\<open>no\<close>, the other field being \<^verbatim>\<open>None\<close>; for any other
  order neither field is attached, and a price passed with a market order is dropped.
\<close>

theorem place_order_dispatches:
  "place_order w self evs tckr side action count type price =
     request w self evs ''POST'' ''/trade-api/v2/portfolio/orders''
       (Some \<lparr>o_ticker = tckr, o_side = side, o_action = action, o_count = count, o_type = type,
              yes_price = (if type = ''limit'' \<and> price \<noteq> None
                           then Some (if side = ''yes'' then price else None) else None),
              no_price = (if type = ''limit'' \<and> price \<noteq> None
                          then Some (if side = ''no'' then price else None) else None)\<rparr>)
   \<and> posted (fst (place_order w self evs tckr side action count type price)) =
       posted evs @
       [\<lparr>o_ticker = tckr, o_side = side, o_action = action, o_count = count, o_type = type,
         yes_price = (if type = ''limit'' \<and> price \<noteq> None
                      then Some (if side = ''yes'' then price else None) else None),
         no_price = (if type = ''limit'' \<and> price \<noteq> None
                     then Some (if side = ''no'' then price else None) else None)\<rparr>]"
proof -
  let ?ord = "\<lparr>o_ticker = tckr, o_side = side, o_action = action, o_count = count, o_type = type,
              yes_price = (if type = ''limit'' \<and> price \<noteq> None
                           then Some (if side = ''yes'' then price else None) else None),
              no_price = (if type = ''limit'' \<and> price \<noteq> None
                          then Some (if side = ''no'' then price else None) else None)\<rparr>"
  have eq: "place_order w self evs tckr side action count type price =
     request w self evs ''POST'' ''/trade-api/v2/portfolio/orders'' (Some ?ord)"
    by (cases price) (auto simp: place_order_def Let_def)
  from request_POST_log[of w self evs "''/trade-api/v2/portfolio/orders''" ?ord]
  obtain rest where
    "fst (request w self evs ''POST'' ''/trade-api/v2/portfolio/orders'' (Some ?ord))
      = evs @ Http ''POST'' (base_url self @ ''/trade-api/v2/portfolio/orders'')
                 (headers w self evs ''POST'' ''/trade-api/v2/portfolio/orders'') (Some ?ord) # rest"
    and "posted rest = []" by blast
  then have "posted (fst (request w self evs ''POST'' ''/trade-api/v2/portfolio/orders'' (Some ?ord)))
      = posted evs @ [?ord]"
    by (simp add: posted_append)
  then show ?thesis using eq by simp
qed

theorem place_order_dispatches_witness:
  "posted (fst (place_order accepting_env demo_client [] ''KXBTC15M-T'' ''yes'' ''buy'' 1 ''limit'' (Some 1)))
     = [\<lparr>o_ticker = ''KXBTC15M-T'', o_side = ''yes'', o_action = ''buy'', o_count = 1,
         o_type = ''limit'', yes_price = Some (Some 1), no_price = Some None\<rparr>]
   \<and> posted (fst (place_order accepting_env demo_client [] ''KXBTC15M-T'' ''no'' ''sell'' 2 ''limit'' (Some 99)))
     = [\<lparr>o_ticker = ''KXBTC15M-T'', o_side = ''no'', o_action = ''sell'', o_count = 2,
         o_type = ''limit'', yes_price = Some None, no_price = Some (Some 99)\<rparr>]
   \<and> posted (fst (place_order accepting_env demo_client [] ''KXBTC15M-T'' ''yes'' ''buy'' 1 ''market'' (Some 50)))
     = [\<lparr>o_ticker = ''KXBTC15M-T'', o_side = ''yes'', o_action = ''buy'', o_count = 1,
         o_type = ''market'', yes_price = None, no_price = None\<rparr>]"
proof -
  note a = place_order_dispatches[of accepting_env demo_client "[]" "''KXBTC15M-T''" "''yes''"
      "''buy''" 1 "''limit''" "Some 1", THEN conjunct2]
  note b = place_order_dispatches[of accepting_env demo_client "[]" "''KXBTC15M-T''" "''no''"
      "''sell''" 2 "''limit''" "Some 99", THEN conjunct2]
  note c = place_order_dispatches[of accepting_env demo_client "[]" "''KXBTC15M-T''" "''yes''"
      "''buy''" 1 "''market''" "Some 50", THEN conjunct2]
  show ?thesis using a b c by simp
qed

text \<open>
  The claim as stated fails: a limit order at price 0 is sent to the server as it is and
  the call returns the server's reply; so is one at price 100; and a market order with
  side \<^verbatim>\<open>maybe\<close>, action \<^verbatim>\<open>hold\<close>, count -3 and a price is sent too, without the price.
\<close>

theorem place_order_dispatches_counterexample:
  "place_order accepting_env demo_client [] ''KXBTC15M-T'' ''yes'' ''buy'' 1 ''limit'' (Some 0)
     = ([Http ''POST'' ''https://demo-api.kalshi.co/trade-api/v2/portfolio/orders''
           [(''KALSHI-ACCESS-KEY'', ''key-1''), (''KALSHI-ACCESS-TIMESTAMP'', ''1700000000000''),
            (''KALSHI-ACCESS-SIGNATURE'', ''c2ln''), (''Content-Type'', ''application/json'')]
           (Some \<lparr>o_ticker = ''KXBTC15M-T'', o_side = ''yes'', o_action = ''buy'', o_count = 1,
                  o_type = ''limit'', yes_price = Some (Some 0), no_price = Some None\<rparr>)],
        Inr empty_reply)
   \<and> posted (fst (place_order accepting_env demo_client [] ''KXBTC15M-T'' ''yes'' ''buy'' 1 ''limit'' (Some 100)))
     = [\<lparr>o_ticker = ''KXBTC15M-T'', o_side = ''yes'', o_action = ''buy'', o_count = 1,
         o_type = ''limit'', yes_price = Some (Some 100), no_price = Some None\<rparr>]
   \<and> posted (fst (place_order accepting_env demo_client [] ''KXBTC15M-T'' ''maybe'' ''hold'' (- 3) ''market'' (Some 50)))
     = [\<lparr>o_ticker = ''KXBTC15M-T'', o_side = ''maybe'', o_action = ''hold'', o_count = - 3,
         o_type = ''market'', yes_price = None, no_price = None\<rparr>]"
  by code_simp

lemma analyze_coin_cong:
  "ms c = ms' c \<Longrightarrow> analyze_coin prices ms c acc = analyze_coin prices ms' c acc"
  by (simp add: analyze_coin_def)

lemma analyze_coin_absent: "ms c = None \<Longrightarrow> analyze_coin prices ms c acc = Inr acc"
  by (simp add: analyze_coin_def)

lemma analyze_arbitrage_only_eth:
  assumes "ms ''btc'' = None"
  shows "analyze_arbitrage prices ms = analyze_coin prices ms ''eth'' []"
  using assms by (simp add: analyze_arbitrage_iff analyze_coin_absent split: sum.splits)

lemma analyze_arbitrage_only_btc:
  assumes "ms ''eth'' = None"
  shows "analyze_arbitrage prices ms = analyze_coin prices ms ''btc'' []"
  using assms by (simp add: analyze_arbitrage_iff analyze_coin_absent split: sum.splits)

lemma markets_15m_unfold:
  "get_kalshi_15m_markets w self evs =
     (case request w self evs ''GET'' (series_path ''KXBTC15M'' ''5'') None of
        (evs1, r1) \<Rightarrow>
          (case request w self evs1 ''GET'' (series_path ''KXETH15M'' ''5'') None of
             (evs2, r2) \<Rightarrow>
               (evs2,
                (let ms1 =
                       (case r1 of
                          Inl e \<Rightarrow> [''btc_error'' \<mapsto> ErrorText (str_exc e)]
                        | Inr resp \<Rightarrow>
                            (case first_quotable (get_or (markets resp) []) of
                               None \<Rightarrow> Map.empty
                             | Some entry \<Rightarrow> [''btc'' \<mapsto> Market entry]))
                 in case r2 of
                      Inl e \<Rightarrow> ms1(''eth_error'' \<mapsto> ErrorText (str_exc e))
                    | Inr resp \<Rightarrow>
                        (case first_quotable (get_or (markets resp) []) of
                           None \<Rightarrow> ms1
                         | Some entry \<Rightarrow> ms1(''eth'' \<mapsto> Market entry))))))"
  by (simp add: get_kalshi_15m_markets_def Let_def split: prod.splits sum.splits option.splits)

text \<open>
  Claim C6. If the request for one series raises and the request for the other returns,
  \<^verbatim>\<open>get_kalshi_15m_markets\<close> stores the text of the exception under \<^verbatim>\<open><coin>_error\<close>,
  stores no market for that coin, and stores for the other coin the entry selected from
  its reply; and \<^verbatim>\<open>analyze_arbitrage\<close> on the result is the analysis of the other coin
  alone. This holds with \<^verbatim>\<open>btc\<close> failing and \<^verbatim>\<open>eth\<close> healthy, and the other way round.
\<close>

theorem fetch_failure_isolated:
  "(request w self evs ''GET'' (series_path ''KXBTC15M'' ''5'') None = (evs1, Inl e)
      \<and> request w self evs1 ''GET'' (series_path ''KXETH15M'' ''5'') None = (evs2, Inr resp)
    \<longrightarrow> (let ms = snd (get_kalshi_15m_markets w self evs)
         in ms ''btc_error'' = Some (ErrorText (str_exc e))
            \<and> ms ''btc'' = None
            \<and> ms ''eth'' = map_option Market (first_quotable (get_or (markets resp) []))
            \<and> analyze_arbitrage prices ms = analyze_coin prices ms ''eth'' []))
   \<and> (request w self evs ''GET'' (series_path ''KXBTC15M'' ''5'') None = (evs1, Inr resp)
      \<and> request w self evs1 ''GET'' (series_path ''KXETH15M'' ''5'') None = (evs2, Inl e)
    \<longrightarrow> (let ms = snd (get_kalshi_15m_markets w self evs)
         in ms ''eth_error'' = Some (ErrorText (str_exc e))
            \<and> ms ''eth'' = None
            \<and> ms ''btc'' = map_option Market (first_quotable (get_or (markets resp) []))
            \<and> analyze_arbitrage prices ms = analyze_coin prices ms ''btc'' []))"
proof (intro conjI impI)
  assume a: "request w self evs ''GET'' (series_path ''KXBTC15M'' ''5'') None = (evs1, Inl e)
      \<and> request w self evs1 ''GET'' (series_path ''KXETH15M'' ''5'') None = (evs2, Inr resp)"
  let ?ms = "snd (get_kalshi_15m_markets w self evs)"
  have ms: "?ms = (case first_quotable (get_or (markets resp) []) of
                     None \<Rightarrow> [''btc_error'' \<mapsto> ErrorText (str_exc e)]
                   | Some entry \<Rightarrow> [''btc_error'' \<mapsto> ErrorText (str_exc e), ''eth'' \<mapsto> Market entry])"
    using a by (simp add: markets_15m_unfold Let_def split: option.splits)
  have 1: "?ms ''btc_error'' = Some (ErrorText (str_exc e))"
    by (simp add: ms split: option.splits)
  have 2: "?ms ''btc'' = None"
    by (simp add: ms split: option.splits)
  have 3: "?ms ''eth'' = map_option Market (first_quotable (get_or (markets resp) []))"
    by (simp add: ms split: option.splits)
  have 4: "analyze_arbitrage prices ?ms = analyze_coin prices ?ms ''eth'' []"
    using 2 by (rule analyze_arbitrage_only_eth)
  show "let ms = ?ms
        in ms ''btc_error'' = Some (ErrorText (str_exc e))
            \<and> ms ''btc'' = None
            \<and> ms ''eth'' = map_option Market (first_quotable (get_or (markets resp) []))
            \<and> analyze_arbitrage prices ms = analyze_coin prices ms ''eth'' []"
    unfolding Let_def using 1 2 3 4 by blast
next
  assume a: "request w self evs ''GET'' (series_path ''KXBTC15M'' ''5'') None = (evs1, Inr resp)
      \<and> request w self evs1 ''GET'' (series_path ''KXETH15M'' ''5'') None = (evs2, Inl e)"
  let ?ms = "snd (get_kalshi_15m_markets w self evs)"
  have ms: "?ms = (case first_quotable (get_or (markets resp) []) of
                     None \<Rightarrow> [''eth_error'' \<mapsto> ErrorText (str_exc e)]
                   | Some entry \<Rightarrow> [''btc'' \<mapsto> Market entry, ''eth_error'' \<mapsto> ErrorText (str_exc e)])"
    using a by (simp add: markets_15m_unfold Let_def split: option.splits)
  have 1: "?ms ''eth_error'' = Some (ErrorText (str_exc e))"
    by (simp add: ms split: option.splits)
  have 2: "?ms ''eth'' = None"
    by (simp add: ms split: option.splits)
  have 3: "?ms ''btc'' = map_option Market (first_quotable (get_or (markets resp) []))"
    by (simp add: ms split: option.splits)
  have 4: "analyze_arbitrage prices ?ms = analyze_coin prices ?ms ''btc'' []"
    using 2 by (rule analyze_arbitrage_only_btc)
  show "let ms = ?ms
        in ms ''eth_error'' = Some (ErrorText (str_exc e))
            \<and> ms ''eth'' = None
            \<and> ms ''btc'' = map_option Market (first_quotable (get_or (markets resp) []))
            \<and> analyze_arbitrage prices ms = analyze_coin prices ms ''btc'' []"
    unfolding Let_def using 1 2 3 4 by blast
qed

theorem fetch_failure_isolated_witness:
  "snd (get_kalshi_15m_markets btc_down_env demo_client []) ''btc_error''
     = Some (ErrorText ''connection refused'')
   \<and> snd (get_kalshi_15m_markets btc_down_env demo_client []) ''eth''
     = Some (Market (market_entry eth_market))
   \<and> analyze_arbitrage [''btc'' \<mapsto> Some 67000, ''eth'' \<mapsto> Some 102]
        (snd (get_kalshi_15m_markets btc_down_env demo_client []))
     = Inr [buy_yes ''eth'' (market_entry eth_market) 102 100 80 70]"
proof -
  let ?p1 = "series_path ''KXBTC15M'' ''5''"
  let ?p2 = "series_path ''KXETH15M'' ''5''"
  let ?evs1 = "[Http ''GET'' (base_url demo_client @ ?p1)
                  (headers btc_down_env demo_client [] ''GET'' ?p1) None]"
  let ?evs2 = "?evs1 @ [Http ''GET'' (base_url demo_client @ ?p2)
                  (headers btc_down_env demo_client ?evs1 ''GET'' ?p2) None]"
  have r1: "request btc_down_env demo_client [] ''GET'' ?p1 None
              = (?evs1, Inl (Exc RequestException ''connection refused''))"
    by code_simp
  have r2: "request btc_down_env demo_client ?evs1 ''GET'' ?p2 None
              = (?evs2, Inr \<lparr>markets = Some [eth_market]\<rparr>)"
    by code_simp
  have fq: "first_quotable (get_or (Some [eth_market]) []) = Some (market_entry eth_market)"
    by code_simp
  have an: "analyze_coin [''btc'' \<mapsto> Some 67000, ''eth'' \<mapsto> Some 102]
              [''eth'' \<mapsto> Market (market_entry eth_market)] ''eth'' []
            = Inr [buy_yes ''eth'' (market_entry eth_market) 102 100 80 70]"
    by code_simp
  note t = fetch_failure_isolated[of btc_down_env demo_client "[]" ?evs1
      "Exc RequestException ''connection refused''" ?evs2 "\<lparr>markets = Some [eth_market]\<rparr>"
      "[''btc'' \<mapsto> Some 67000, ''eth'' \<mapsto> Some 102]", THEN conjunct1, rule_format, OF conjI[OF r1 r2]]
  let ?ms = "snd (get_kalshi_15m_markets btc_down_env demo_client [])"
  from t have 1: "?ms ''btc_error'' = Some (ErrorText ''connection refused'')"
    and 3: "?ms ''eth'' = Some (Market (market_entry eth_market))"
    and 4: "analyze_arbitrage [''btc'' \<mapsto> Some 67000, ''eth'' \<mapsto> Some 102] ?ms
            = analyze_coin [''btc'' \<mapsto> Some 67000, ''eth'' \<mapsto> Some 102] ?ms ''eth'' []"
    by (simp_all add: Let_def fq)
  have "analyze_coin [''btc'' \<mapsto> Some 67000, ''eth'' \<mapsto> Some 102] ?ms ''eth'' []
        = analyze_coin [''btc'' \<mapsto> Some 67000, ''eth'' \<mapsto> Some 102]
            [''eth'' \<mapsto> Market (market_entry eth_market)] ''eth'' []"
    by (rule analyze_coin_cong) (simp add: 3)
  then show ?thesis using 1 3 4 an by simp
qed

lemma request_mono: "set evs \<subseteq> set (fst (request w self evs method path data))"
  by (auto simp: request_def Let_def split: http_outcome.splits)

lemma markets_15m_loop_mono:
  "set evs \<subseteq> set (fst (markets_15m_loop w self l (evs, ms)))"
proof (induction l arbitrary: evs ms)
  case Nil
  then show ?case by simp
next
  case (Cons a l)
  obtain series c where a: "a = (series, c)" by (cases a)
  obtain evs1 r where r: "request w self evs ''GET'' (series_path series ''5'') None = (evs1, r)"
    by (cases "request w self evs ''GET'' (series_path series ''5'') None")
  have sub: "set evs \<subseteq> set evs1"
    using request_mono[of evs w self "''GET''" "series_path series ''5''" None] r by simp
  show ?case
    using sub Cons.IH[of evs1] by (auto simp: a r split: sum.splits option.splits)
qed

lemma markets_daily_loop_mono:
  "set evs \<subseteq> set (fst (markets_daily_loop w self l (evs, ms)))"
proof (induction l arbitrary: evs ms)
  case Nil
  then show ?case by simp
next
  case (Cons a l)
  obtain series c where a: "a = (series, c)" by (cases a)
  obtain evs1 r where r: "request w self evs ''GET'' (series_path series ''20'') None = (evs1, r)"
    by (cases "request w self evs ''GET'' (series_path series ''20'') None")
  have sub: "set evs \<subseteq> set evs1"
    using request_mono[of evs w self "''GET''" "series_path series ''20''" None] r by simp
  show ?case
    using sub Cons.IH[of evs1] by (auto simp: a r Let_def split: sum.splits)
qed

lemma first_series_requested:
  "Http ''GET'' (base_url self @ series_path ''KXBTC15M'' ''5'')
     (headers w self evs ''GET'' (series_path ''KXBTC15M'' ''5'')) None
   \<in> set (fst (get_kalshi_15m_markets w self evs))"
proof -
  let ?p = "series_path ''KXBTC15M'' ''5''"
  obtain evs1 r where r: "request w self evs ''GET'' ?p None = (evs1, r)"
    by (cases "request w self evs ''GET'' ?p None")
  from request_GET_log[of w self evs ?p] r
  have m: "Http ''GET'' (base_url self @ ?p) (headers w self evs ''GET'' ?p) None \<in> set evs1"
    by auto
  have "set evs1 \<subseteq> set (fst (get_kalshi_15m_markets w self evs))"
    using markets_15m_loop_mono[of evs1 w self "[(''KXETH15M'', ''eth'')]"]
    by (auto simp: get_kalshi_15m_markets_def r split: sum.splits option.splits)
  then show ?thesis using m by blast
qed

lemma main_on_error:
  assumes "price_feed w = Inl e"
  shows "main w fr = ([PriceFeedGet, Stdout (''Error fetching prices: '' @ str_exc e)], Inr None)"
  using assms by (simp add: main_def get_crypto_prices_def)

lemma main_log_healthy:
  assumes "price_feed w = Inr data" and "new_client w = Inr self"
  shows "set (fst (get_kalshi_15m_markets w self [PriceFeedGet])) \<subseteq> set (fst (main w fr))"
proof -
  obtain evs2 ms where m: "get_kalshi_15m_markets w self [PriceFeedGet] = (evs2, ms)"
    by (cases "get_kalshi_15m_markets w self [PriceFeedGet]")
  obtain evs3 md where d: "get_kalshi_daily_markets w self evs2 = (evs3, md)"
    by (cases "get_kalshi_daily_markets w self evs2")
  have "set evs2 \<subseteq> set (fst (get_kalshi_daily_markets w self evs2))"
    unfolding get_kalshi_daily_markets_def by (rule markets_daily_loop_mono)
  then have "set evs2 \<subseteq> set evs3" by (simp add: d)
  moreover have "fst (main w fr) = evs3"
    using assms m d by (simp add: main_def get_crypto_prices_def split: sum.splits)
  ultimately show ?thesis using m by simp
qed

text \<open>
  Claim C7. If the dictionary of \<^verbatim>\<open>get_crypto_prices\<close> has the key \<^verbatim>\<open>error\<close>, which is
  the case exactly when the fetch raised, \<^verbatim>\<open>main\<close> prints the error and returns
  \<^verbatim>\<open>None\<close>: the log holds the request to the price feed and the printed line and nothing
  else, so no request to the market API was made, and no report was built. With a healthy
  feed and a client, the log of \<^verbatim>\<open>main\<close> does hold a request to the market API.
\<close>

theorem price_feed_failure_aborts:
  "(has_error_key (snd (get_crypto_prices w [])) \<longrightarrow>
      (\<exists>msg. snd (get_crypto_prices w []) = ErrorDict msg
         \<and> main w fr = ([PriceFeedGet, Stdout (''Error fetching prices: '' @ msg)], Inr None)))
   \<and> (has_error_key (snd (get_crypto_prices w [])) = (\<exists>e. price_feed w = Inl e))
   \<and> (price_feed w = Inr data \<and> new_client w = Inr self \<longrightarrow>
        Http ''GET'' (base_url self @ series_path ''KXBTC15M'' ''5'')
          (headers w self [PriceFeedGet] ''GET'' (series_path ''KXBTC15M'' ''5'')) None
        \<in> set (fst (main w fr)))"
proof (intro conjI impI)
  assume "has_error_key (snd (get_crypto_prices w []))"
  then obtain e where e: "price_feed w = Inl e"
    by (cases "price_feed w") (auto simp: get_crypto_prices_def)
  then have "snd (get_crypto_prices w []) = ErrorDict (str_exc e)"
    by (simp add: get_crypto_prices_def)
  then show "\<exists>msg. snd (get_crypto_prices w []) = ErrorDict msg
         \<and> main w fr = ([PriceFeedGet, Stdout (''Error fetching prices: '' @ msg)], Inr None)"
    using main_on_error[OF e] by blast
next
  show "has_error_key (snd (get_crypto_prices w [])) = (\<exists>e. price_feed w = Inl e)"
    by (cases "price_feed w") (auto simp: get_crypto_prices_def)
next
  assume "price_feed w = Inr data \<and> new_client w = Inr self"
  then show "Http ''GET'' (base_url self @ series_path ''KXBTC15M'' ''5'')
          (headers w self [PriceFeedGet] ''GET'' (series_path ''KXBTC15M'' ''5'')) None
        \<in> set (fst (main w fr))"
    using main_log_healthy[of w data self fr] first_series_requested[of self w "[PriceFeedGet]"]
    by blast
qed

theorem price_feed_failure_aborts_witness:
  "has_error_key (snd (get_crypto_prices accepting_env []))
   \<and> main accepting_env plain_report
       = ([PriceFeedGet, Stdout ''Error fetching prices: timed out''], Inr None)"
proof -
  have s: "snd (get_crypto_prices accepting_env []) = ErrorDict ''timed out''"
    by (simp add: get_crypto_prices_def accepting_env_def)
  then have h: "has_error_key (snd (get_crypto_prices accepting_env []))" by simp
  from price_feed_failure_aborts[of accepting_env plain_report, THEN conjunct1, rule_format, OF h]
  obtain msg where "snd (get_crypto_prices accepting_env []) = ErrorDict msg"
    and m: "main accepting_env plain_report
         = ([PriceFeedGet, Stdout (''Error fetching prices: '' @ msg)], Inr None)"
    by blast
  then have "msg = ''timed out''" using s by simp
  then show ?thesis using h m by simp
qed

end
